theory Spec2Isabelle
  imports Main "HOL-Library.Multiset" "HOL-Library.Char_ord" "HOL-Library.List_Lexorder"
    "HOL-Library.AList"
begin

section \<open>The statistics table of church-account-bliss\<close>

text \<open>
  The development embeds the logic of \<^verbatim>\<open>src/components/StatisticsTable.tsx\<close>: the memoised
  \<^verbatim>\<open>filteredTransactions\<close>, \<^verbatim>\<open>totals\<close> and \<^verbatim>\<open>availableDepartments\<close>, and the click handlers
  of the department cell (start of an edit, commit, cancel).
\<close>

subsection \<open>JavaScript strings and truthiness\<close>

text \<open>
  Strings are lists of 8-bit characters. \<^verbatim>\<open>String.prototype.trim\<close> removes white space and line
  terminators from both ends; of those code units, the ones that fit in 8 bits are TAB, LF, VT, FF,
  CR, SPACE and NBSP.
\<close>

definition isWhiteSpace :: "char \<Rightarrow> bool" where
  "isWhiteSpace c = (of_char c \<in> {9, 10, 11, 12, 13, 32, 160 :: nat})"

definition trim :: "string \<Rightarrow> string" where
  "trim s = rev (dropWhile isWhiteSpace (rev (dropWhile isWhiteSpace s)))"

text \<open>
  A value of type \<^verbatim>\<open>string | undefined\<close> is a \<^typ>\<open>string option\<close>. It is truthy when it is a
  non-empty string; \<^verbatim>\<open>a || b\<close> is \<^verbatim>\<open>a\<close> when \<^verbatim>\<open>a\<close> is truthy and \<^verbatim>\<open>b\<close> otherwise.
\<close>

definition truthy :: "string option \<Rightarrow> bool" where
  "truthy v = (case v of None \<Rightarrow> False | Some s \<Rightarrow> s \<noteq> [])"

definition js_or :: "string option \<Rightarrow> string option \<Rightarrow> string option" where
  "js_or a b = (if truthy a then a else b)"

text \<open>\<^verbatim>\<open>a || ''\<close>, whose value is always a string.\<close>

definition or_empty :: "string option \<Rightarrow> string" where
  "or_empty a = (case a of None \<Rightarrow> [] | Some s \<Rightarrow> s)"

text \<open>\<^verbatim>\<open>s || undefined\<close> for a string \<^verbatim>\<open>s\<close>.\<close>

definition or_undefined :: "string \<Rightarrow> string option" where
  "or_undefined s = (if s \<noteq> [] then Some s else None)"

subsection \<open>Names without a binding\<close>

text \<open>
  The parameter list of the component (line 38) binds \<^verbatim>\<open>transactions\<close>, \<^verbatim>\<open>getCategoryName\<close> and
  \<^verbatim>\<open>onDelete\<close>. The body also reads \<^verbatim>\<open>getCategoryDepartment\<close> (lines 85, 91, 125, 129, 237, 238),
  \<^verbatim>\<open>updateTransaction\<close> (line 224) and \<^verbatim>\<open>updateCategory\<close> (lines 227, 234). The interface
  \<^verbatim>\<open>StatisticsTableProps\<close> declares props of these names, but nothing in the module binds them:
  no parameter, no import, no declaration. Reading a name that has no binding raises
  \<^verbatim>\<open>ReferenceError\<close>. Each constant below is the outcome of reading one of the three names: an error,
  where a binding would have given the optional function the interface describes.
\<close>

datatype error = ReferenceError

text \<open>A call to a collaborator, as a value: the arguments it is given.\<close>

datatype call =
  UpdateTransaction string "string option"
| UpdateCategory string string "string option"

definition getCategoryDepartment :: "error + (string \<Rightarrow> string option) option" where
  "getCategoryDepartment = Inl ReferenceError"

definition updateTransaction :: "error + (string \<Rightarrow> string option \<Rightarrow> call) option" where
  "updateTransaction = Inl ReferenceError"

definition updateCategory :: "error + (string \<Rightarrow> string \<Rightarrow> string option \<Rightarrow> call) option" where
  "updateCategory = Inl ReferenceError"

subsection \<open>Transactions\<close>

text \<open>
  The fields of \<^verbatim>\<open>Transaction\<close> that the component reads. The amount is a JavaScript number; the
  embedding leaves its domain as a type parameter. A \<^verbatim>\<open>Date\<close> is represented by its time value
  (\<^verbatim>\<open>getTime()\<close>, milliseconds since the epoch); an invalid date, whose time value is
  \<^verbatim>\<open>NaN\<close>, is outside the model.
\<close>

datatype txType = Income | Expense

record 'a transaction =
  id_tx :: string
  type_tx :: txType
  amount :: 'a
  currency :: string
  category :: string
  departmentName :: "string option"
  date :: int
  description :: "string option"

subsection \<open>The effective department of a transaction\<close>

text \<open>
  Lines 85, 125 and 238:
  \<^verbatim>\<open>tx.departmentName || (getCategoryDepartment ? getCategoryDepartment(tx.category) : undefined)\<close>.
  The right operand of \<^verbatim>\<open>||\<close> is evaluated only when the left one is not truthy, and its evaluation
  starts by reading \<^verbatim>\<open>getCategoryDepartment\<close>.
\<close>

definition effectiveDepartment :: "'a transaction \<Rightarrow> error + string option" where
  "effectiveDepartment tx =
     (if truthy (departmentName tx) then Inr (departmentName tx)
      else (case getCategoryDepartment of
              Inl e \<Rightarrow> Inl e
            | Inr g \<Rightarrow>
                Inr (case g of
                       Some lookup \<Rightarrow> lookup (category tx)
                     | None \<Rightarrow> None)))"

subsection \<open>Time ranges\<close>

text \<open>
  The functions the component imports from the date-fns library are parameters of the embedding;
  each maps the time value of its argument to the time value of its result.
\<close>

record datefns =
  startOfMonth :: "int \<Rightarrow> int"
  endOfMonth :: "int \<Rightarrow> int"
  subMonths :: "int \<Rightarrow> int \<Rightarrow> int"
  startOfYear :: "int \<Rightarrow> int"
  endOfYear :: "int \<Rightarrow> int"

text \<open>
  Modelled from the spec: \<^verbatim>\<open>isWithinInterval\<close> of date-fns, which is not part of the sources.
  Section 4.1 of the specification: interval boundaries are inclusive on both ends.
\<close>

definition isWithinInterval :: "int \<Rightarrow> int \<times> int \<Rightarrow> bool" where
  "isWithinInterval d iv = (fst iv \<le> d \<and> d \<le> snd iv)"

text \<open>
  Lines 46 to 73: the \<^verbatim>\<open>switch\<close> over \<^verbatim>\<open>timeRange\<close> that assigns \<^verbatim>\<open>startDate\<close> and \<^verbatim>\<open>endDate\<close>,
  both \<^verbatim>\<open>null\<close> in the default branch. The token is a string at run time.
\<close>

definition resolveTimeRange :: "datefns \<Rightarrow> string \<Rightarrow> int \<Rightarrow> int option \<times> int option" where
  "resolveTimeRange lib timeRange now =
     (if timeRange = ''thisMonth'' then
        (Some (startOfMonth lib now), Some (endOfMonth lib now))
      else if timeRange = ''lastMonth'' then
        (Some (startOfMonth lib (subMonths lib now 1)), Some (endOfMonth lib (subMonths lib now 1)))
      else if timeRange = ''last3Months'' then
        (Some (startOfMonth lib (subMonths lib now 2)), Some (endOfMonth lib now))
      else if timeRange = ''last6Months'' then
        (Some (startOfMonth lib (subMonths lib now 5)), Some (endOfMonth lib now))
      else if timeRange = ''thisYear'' then
        (Some (startOfYear lib now), Some (endOfYear lib now))
      else (None, None))"

subsection \<open>Arrays in a store\<close>

text \<open>
  \<^verbatim>\<open>Array.prototype.sort\<close> sorts the array it is called on and returns that same array, whereas
  \<^verbatim>\<open>Array.prototype.filter\<close> returns a fresh array. To tell the two apart, arrays live in a store:
  a reference is an index into the list of all arrays, and a fresh array is appended to it. A
  reference of the program always denotes an array, so the properties below are stated for a
  reference \<open>r\<close> of the store \<open>h\<close>, that is \<open>r < length h\<close>.
\<close>

type_synonym 'a store = "'a transaction list list"

definition array_filter ::
  "('a transaction \<Rightarrow> bool) \<Rightarrow> 'a store \<Rightarrow> nat \<Rightarrow> 'a store \<times> nat" where
  "array_filter p h r = (h @ [filter p (h ! r)], length h)"

text \<open>
  \<^verbatim>\<open>filter\<close> with a callback that may raise: the callback is applied to the elements in order,
  and the first error ends the call, which then returns no array.
\<close>

fun filterE :: "('b \<Rightarrow> error + bool) \<Rightarrow> 'b list \<Rightarrow> error + 'b list" where
  "filterE p [] = Inr []"
| "filterE p (x # xs) =
     (case p x of
        Inl e \<Rightarrow> Inl e
      | Inr b \<Rightarrow>
          (case filterE p xs of
             Inl e \<Rightarrow> Inl e
           | Inr ys \<Rightarrow> Inr (if b then x # ys else ys)))"

definition array_filterE ::
  "('a transaction \<Rightarrow> error + bool) \<Rightarrow> 'a store \<Rightarrow> nat \<Rightarrow> 'a store \<times> (error + nat)" where
  "array_filterE p h r =
     (case filterE p (h ! r) of
        Inl e \<Rightarrow> (h, Inl e)
      | Inr ys \<Rightarrow> (h @ [ys], Inr (length h)))"

text \<open>
  The comparator of line 81 is \<^verbatim>\<open>new Date(b.date).getTime() - new Date(a.date).getTime()\<close>: it is
  negative exactly when \<^verbatim>\<open>a\<close> is the later of the two, so later dates come first. The sort is
  stable (ECMAScript 2019), so transactions of equal date keep their relative order.
\<close>

definition array_sort :: "'a store \<Rightarrow> nat \<Rightarrow> 'a store \<times> nat" where
  "array_sort h r = (h[r := sort_key (\<lambda>t. - date t) (h ! r)], r)"

subsection \<open>The filter pipeline\<close>

text \<open>
  Lines 43 to 90, the function passed to \<^verbatim>\<open>useMemo\<close>. \<^verbatim>\<open>now\<close> is \<^verbatim>\<open>new Date()\<close> in the source
  and an argument here. The function takes the store and the reference held by the prop
  \<^verbatim>\<open>transactions\<close>, and returns the store as it leaves it, with the reference it returns or the
  error it raises.
\<close>

definition filteredTransactions ::
  "datefns \<Rightarrow> int \<Rightarrow> string \<Rightarrow> string \<Rightarrow> 'a store \<Rightarrow> nat \<Rightarrow> 'a store \<times> (error + nat)" where
  "filteredTransactions lib now timeRange departmentFilter h transactions =
     (let (h1, result1) =
            (case resolveTimeRange lib timeRange now of
               (Some startDate, Some endDate) \<Rightarrow>
                 array_filter (\<lambda>t. isWithinInterval (date t) (startDate, endDate)) h transactions
             | _ \<Rightarrow> (h, transactions));
          (h2, result2) = array_sort h1 result1
      in if departmentFilter \<noteq> [] \<and> departmentFilter \<noteq> ''all'' then
           array_filterE
             (\<lambda>tx. case effectiveDepartment tx of
                     Inl e \<Rightarrow> Inl e
                   | Inr dept \<Rightarrow> Inr (truthy dept \<and> dept = Some departmentFilter))
             h2 result2
         else (h2, Inr result2))"

text \<open>
  Lines 43 to 91, the statement \<^verbatim>\<open>const filteredTransactions = useMemo(..., [...])\<close> on the first
  render. The arguments are evaluated before \<^verbatim>\<open>useMemo\<close> is called: the function is only built,
  and the array of dependencies
  \<^verbatim>\<open>[transactions, timeRange, departmentFilter, getCategoryDepartment]\<close> reads its four names. Then
  \<^verbatim>\<open>useMemo\<close> calls the function.
\<close>

definition filteredTransactions_memo ::
  "datefns \<Rightarrow> int \<Rightarrow> string \<Rightarrow> string \<Rightarrow> 'a store \<Rightarrow> nat \<Rightarrow> 'a store \<times> (error + nat)" where
  "filteredTransactions_memo lib now timeRange departmentFilter h transactions =
     (case getCategoryDepartment of
        Inl e \<Rightarrow> (h, Inl e)
      | Inr dependency \<Rightarrow> filteredTransactions lib now timeRange departmentFilter h transactions)"

subsection \<open>Totals per currency\<close>

text \<open>
  Lines 93 to 108. The object \<^verbatim>\<open>result\<close> is an association list in insertion order, the order in
  which \<^verbatim>\<open>Object.entries\<close> lists string keys that are not array indices. A currency code is
  neither an array index nor the name of a property that every object inherits.
\<close>

record 'a bucket =
  income :: 'a
  expense :: 'a

definition totals_step ::
  "(string \<times> 'a::{zero,plus} bucket) list \<Rightarrow> 'a transaction \<Rightarrow> (string \<times> 'a bucket) list" where
  "totals_step result t =
     (let result1 =
            (if map_of result (currency t) = None
             then AList.update (currency t) \<lparr>income = 0, expense = 0\<rparr> result
             else result)
      in if type_tx t = Income
         then AList.map_entry (currency t) (\<lambda>b. b\<lparr>income := income b + amount t\<rparr>) result1
         else AList.map_entry (currency t) (\<lambda>b. b\<lparr>expense := expense b + amount t\<rparr>) result1)"

definition totals :: "'a::{zero,plus} transaction list \<Rightarrow> (string \<times> 'a bucket) list" where
  "totals filtered = foldl totals_step [] filtered"

subsection \<open>The departments offered by the selector\<close>

text \<open>
  Lines 123 to 128, the function passed to \<^verbatim>\<open>useMemo\<close>. A \<^verbatim>\<open>Set\<close> keeps its elements in
  insertion order; \<^verbatim>\<open>sort()\<close> without a comparator orders strings by their code units. The loop
  of \<^verbatim>\<open>forEach\<close> ends at the first error.
\<close>

definition set_add :: "'b \<Rightarrow> 'b list \<Rightarrow> 'b list" where
  "set_add x s = (if x \<in> set s then s else s @ [x])"

fun collectDepartments :: "string list \<Rightarrow> 'a transaction list \<Rightarrow> error + string list" where
  "collectDepartments s [] = Inr s"
| "collectDepartments s (tx # txs) =
     (case effectiveDepartment tx of
        Inl e \<Rightarrow> Inl e
      | Inr dept \<Rightarrow>
          collectDepartments
            (if truthy dept \<and> trim (or_empty dept) \<noteq> []
             then set_add (trim (or_empty dept)) s else s)
            txs)"

definition availableDepartments :: "'a transaction list \<Rightarrow> error + string list" where
  "availableDepartments transactions =
     (case collectDepartments [] transactions of
        Inl e \<Rightarrow> Inl e
      | Inr s \<Rightarrow> Inr (sort s))"

text \<open>
  Lines 122 to 129, the statement \<^verbatim>\<open>const availableDepartments = useMemo(..., [...])\<close> on the
  first render, whose array of dependencies is \<^verbatim>\<open>[transactions, getCategoryDepartment]\<close>.
\<close>

definition availableDepartments_memo :: "'a transaction list \<Rightarrow> error + string list" where
  "availableDepartments_memo transactions =
     (case getCategoryDepartment of
        Inl e \<Rightarrow> Inl e
      | Inr dependency \<Rightarrow> availableDepartments transactions)"

subsection \<open>Editing the department of a row\<close>

text \<open>
  Lines 119 to 121 and 220 to 239: the component state of the editor and the click handlers. A
  handler returns the state with the updates it has requested, the calls it has made to the
  collaborators, in order, and the error it raised, if any. A state update requested before an
  error is raised stays requested.
\<close>

record editor =
  editingId :: "string option"
  editingDept :: string
  applyToCategory :: bool

definition initialEditor :: editor where
  "initialEditor = \<lparr>editingId = None, editingDept = [], applyToCategory = False\<rparr>"

record outcome =
  editor_after :: editor
  calls :: "call list"
  raised :: "error option"

text \<open>
  Line 237, the click on the department cell of a row that is not being edited:
  \<^verbatim>\<open>setEditingId(transaction.id)\<close>, then \<^verbatim>\<open>setEditingDept\<close> of
  \<^verbatim>\<open>transaction.departmentName || (getCategoryDepartment ? getCategoryDepartment(transaction.category) : '') || ''\<close>.
\<close>

definition startEdit :: "'a transaction \<Rightarrow> editor \<Rightarrow> outcome" where
  "startEdit transaction st =
     (let st1 = st\<lparr>editingId := Some (id_tx transaction)\<rparr>
      in if truthy (departmentName transaction) then
           \<lparr>editor_after = st1\<lparr>editingDept := or_empty (departmentName transaction)\<rparr>,
            calls = [], raised = None\<rparr>
         else
           (case getCategoryDepartment of
              Inl e \<Rightarrow> \<lparr>editor_after = st1, calls = [], raised = Some e\<rparr>
            | Inr g \<Rightarrow>
                \<lparr>editor_after =
                   st1\<lparr>editingDept :=
                         or_empty (js_or
                           (case g of
                              Some lookup \<Rightarrow> lookup (category transaction)
                            | None \<Rightarrow> Some [])
                           (Some []))\<rparr>,
                 calls = [], raised = None\<rparr>))"

text \<open>
  Lines 223 to 232, the confirm button of the row being edited. \<^verbatim>\<open>getCategoryName\<close> is bound by
  the parameter list and is an argument here.
\<close>

definition commit :: "(string \<Rightarrow> string) \<Rightarrow> 'a transaction \<Rightarrow> editor \<Rightarrow> outcome" where
  "commit getCategoryName transaction st =
     (case updateTransaction of
        Inl e \<Rightarrow> \<lparr>editor_after = st, calls = [], raised = Some e\<rparr>
      | Inr ut \<Rightarrow>
          (let calls1 =
                 (case ut of
                    Some f \<Rightarrow> [f (id_tx transaction) (or_undefined (trim (editingDept st)))]
                  | None \<Rightarrow> [])
           in if applyToCategory st then
                (case updateCategory of
                   Inl e \<Rightarrow> \<lparr>editor_after = st, calls = calls1, raised = Some e\<rparr>
                 | Inr uc \<Rightarrow>
                     \<lparr>editor_after = st\<lparr>editingId := None, editingDept := []\<rparr>,
                      calls = calls1 @
                        (case uc of
                           Some g \<Rightarrow>
                             [g (category transaction) (getCategoryName (category transaction))
                                (or_undefined (trim (editingDept st)))]
                         | None \<Rightarrow> []),
                      raised = None\<rparr>)
              else
                \<lparr>editor_after = st\<lparr>editingId := None, editingDept := []\<rparr>,
                 calls = calls1, raised = None\<rparr>))"

text \<open>Line 233, the cancel button of the row being edited.\<close>

definition cancel :: "editor \<Rightarrow> outcome" where
  "cancel st =
     \<lparr>editor_after = st\<lparr>editingId := None, editingDept := [], applyToCategory := False\<rparr>,
      calls = [], raised = None\<rparr>"

subsection \<open>The specification's resolver\<close>

text \<open>
  Section 4.2 of the specification, in its own words, for comparison with
  \<^const>\<open>effectiveDepartment\<close>, with the lookup that the parent component passes as the prop
  \<^verbatim>\<open>getCategoryDepartment\<close>: if the transaction's department name is present and non-empty after
  trimming, return it; otherwise return the result of the lookup on the category.
\<close>

definition resolve_spec :: "(string \<Rightarrow> string option) \<Rightarrow> 'a transaction \<Rightarrow> string option" where
  "resolve_spec lookup tx =
     (case departmentName tx of
        Some d \<Rightarrow> if trim d \<noteq> [] then Some d else lookup (category tx)
      | None \<Rightarrow> lookup (category tx))"

subsection \<open>Concrete data\<close>

text \<open>
  An instance of the library functions for concrete evaluation: the proleptic Gregorian calendar
  in a runtime whose time zone is UTC. Months are numbered from 0, as \<^verbatim>\<open>Date\<close> numbers them.
  \<open>subMonths\<close> keeps the day of the month where the target month has it and takes the last day of
  the target month otherwise.
\<close>

definition isLeapYear :: "int \<Rightarrow> bool" where
  "isLeapYear y = (y mod 4 = 0 \<and> (y mod 100 \<noteq> 0 \<or> y mod 400 = 0))"

definition daysInMonth :: "int \<Rightarrow> int \<Rightarrow> int" where
  "daysInMonth y m =
     (if m = 1 then (if isLeapYear y then 29 else 28)
      else if m = 3 \<or> m = 5 \<or> m = 8 \<or> m = 10 then 30 else 31)"

definition daysFromCivil :: "int \<Rightarrow> int \<Rightarrow> int \<Rightarrow> int" where
  "daysFromCivil y m d =
     (let y' = (if m \<le> 1 then y - 1 else y);
          era = y' div 400;
          yoe = y' - era * 400;
          doy = (153 * (if m > 1 then m - 2 else m + 10) + 2) div 5 + d - 1;
          doe = yoe * 365 + yoe div 4 - yoe div 100 + doy
      in era * 146097 + doe - 719468)"

definition civilFromDays :: "int \<Rightarrow> int \<times> int \<times> int" where
  "civilFromDays z0 =
     (let z = z0 + 719468;
          era = z div 146097;
          doe = z - era * 146097;
          yoe = (doe - doe div 1460 + doe div 36524 - doe div 146096) div 365;
          doy = doe - (365 * yoe + yoe div 4 - yoe div 100);
          mp = (5 * doy + 2) div 153;
          d = doy - (153 * mp + 2) div 5 + 1;
          m = (if mp < 10 then mp + 2 else mp - 10);
          y = yoe + era * 400
      in (if m \<le> 1 then y + 1 else y, m, d))"

definition utc_startOfMonth :: "int \<Rightarrow> int" where
  "utc_startOfMonth t =
     (case civilFromDays (t div 86400000) of
        (y, m, d) \<Rightarrow> daysFromCivil y m 1 * 86400000)"

definition utc_endOfMonth :: "int \<Rightarrow> int" where
  "utc_endOfMonth t =
     (case civilFromDays (t div 86400000) of
        (y, m, d) \<Rightarrow> daysFromCivil y m (daysInMonth y m) * 86400000 + 86399999)"

definition utc_subMonths :: "int \<Rightarrow> int \<Rightarrow> int" where
  "utc_subMonths t n =
     (case civilFromDays (t div 86400000) of
        (y, m, d) \<Rightarrow>
          (let k = y * 12 + m - n; y' = k div 12; m' = k mod 12
           in daysFromCivil y' m' (min d (daysInMonth y' m')) * 86400000 + t mod 86400000))"

definition utc_startOfYear :: "int \<Rightarrow> int" where
  "utc_startOfYear t =
     (case civilFromDays (t div 86400000) of
        (y, m, d) \<Rightarrow> daysFromCivil y 0 1 * 86400000)"

definition utc_endOfYear :: "int \<Rightarrow> int" where
  "utc_endOfYear t =
     (case civilFromDays (t div 86400000) of
        (y, m, d) \<Rightarrow> daysFromCivil y 11 31 * 86400000 + 86399999)"

definition utc :: datefns where
  "utc = \<lparr>startOfMonth = utc_startOfMonth, endOfMonth = utc_endOfMonth,
          subMonths = utc_subMonths, startOfYear = utc_startOfYear, endOfYear = utc_endOfYear\<rparr>"

text \<open>Transactions with integer amounts.\<close>

definition mk_tx ::
  "string \<Rightarrow> txType \<Rightarrow> int \<Rightarrow> string \<Rightarrow> string \<Rightarrow> string option \<Rightarrow> int \<Rightarrow> int transaction" where
  "mk_tx i ty a cur cat dn d =
     \<lparr>id_tx = i, type_tx = ty, amount = a, currency = cur, category = cat,
      departmentName = dn, date = d, description = None\<rparr>"

text \<open>
  Three transactions: the first instant of March 2024, the last instant of March 2024 and the
  first instant of April 2024 (UTC).
\<close>

definition tx_i100 :: "int transaction" where
  "tx_i100 = mk_tx ''i100'' Income 100 ''PLN'' ''tithe'' None 1709251200000"

definition tx_e40 :: "int transaction" where
  "tx_e40 = mk_tx ''e40'' Expense 40 ''PLN'' ''travel'' (Some ''Youth'') 1711929599999"

definition tx_usd5 :: "int transaction" where
  "tx_usd5 = mk_tx ''usd5'' Income 5 ''USD'' ''gift'' None 1711929600000"

text \<open>A transaction whose own department name has a leading space.\<close>

definition tx_padded :: "int transaction" where
  "tx_padded = mk_tx ''padded'' Expense 9 ''PLN'' ''gone'' (Some '' Youth'') 1711000000000"

section \<open>Properties\<close>

subsection \<open>Reading the department of a row\<close>

lemma effectiveDepartment_own_name:
  "truthy (departmentName tx) \<Longrightarrow> effectiveDepartment tx = Inr (departmentName tx)"
  by (simp add: effectiveDepartment_def)

lemma effectiveDepartment_raises:
  "\<not> truthy (departmentName tx) \<Longrightarrow> effectiveDepartment tx = Inl ReferenceError"
  by (simp add: effectiveDepartment_def getCategoryDepartment_def)

lemma filterE_returns:
  "(\<And>x. x \<in> set xs \<Longrightarrow> p x = Inr (q x)) \<Longrightarrow> filterE p xs = Inr (filter q xs)"
  by (induction xs) auto

lemma filterE_raises:
  "x \<in> set xs \<Longrightarrow> p x = Inl ReferenceError \<Longrightarrow> filterE p xs = Inl ReferenceError"
proof (induction xs)
  case Nil
  then show ?case by simp
next
  case (Cons y ys)
  show ?case
  proof (cases "p y")
    case (Inl e)
    then show ?thesis by (cases e) simp
  next
    case (Inr b)
    with Cons have "x \<in> set ys" by auto
    with Cons have "filterE p ys = Inl ReferenceError" by simp
    with Inr show ?thesis by simp
  qed
qed

text \<open>The test of lines 84 to 87 on a row.\<close>

lemma department_test_own_name:
  "truthy (departmentName tx) \<Longrightarrow>
   (case effectiveDepartment tx of
      Inl e \<Rightarrow> Inl e
    | Inr dept \<Rightarrow> Inr (truthy dept \<and> dept = Some df)) = Inr (departmentName tx = Some df)"
  by (auto simp: effectiveDepartment_own_name)

lemma department_test_raises:
  "\<not> truthy (departmentName tx) \<Longrightarrow>
   (case effectiveDepartment tx of
      Inl e \<Rightarrow> Inl e
    | Inr dept \<Rightarrow> Inr (truthy dept \<and> dept = Some df)) = Inl ReferenceError"
  by (simp add: effectiveDepartment_raises)

subsection \<open>The pipeline as a function of the sequence it is given\<close>

lemma resolveTimeRange_shape:
  "resolveTimeRange lib tr now = (None, None) \<or>
   (\<exists>s e. resolveTimeRange lib tr now = (Some s, Some e))"
  by (simp add: resolveTimeRange_def)

lemma resolveTimeRange_cases:
  obtains "resolveTimeRange lib tr now = (None, None)"
  | s e where "resolveTimeRange lib tr now = (Some s, Some e)"
  using resolveTimeRange_shape [of lib tr now] by blast

text \<open>
  The store and the reference after line 81, before the department filter: the pipeline with the
  department filter \<^verbatim>\<open>all\<close>.
\<close>

lemma filteredTransactions_all_unbounded:
  assumes "resolveTimeRange lib tr now = (None, None)"
  shows "filteredTransactions lib now tr ''all'' h r =
     (h[r := sort_key (\<lambda>t. - date t) (h ! r)], Inr r)"
  using assms by (simp add: filteredTransactions_def array_sort_def)

lemma filteredTransactions_all_bounded:
  assumes "resolveTimeRange lib tr now = (Some s, Some e)"
  shows "filteredTransactions lib now tr ''all'' h r =
     (h @ [sort_key (\<lambda>t. - date t) (filter (\<lambda>t. s \<le> date t \<and> date t \<le> e) (h ! r))],
      Inr (length h))"
  using assms
  by (simp add: filteredTransactions_def array_sort_def array_filter_def isWithinInterval_def)

lemma filteredTransactions_specific:
  assumes "df \<noteq> []" and "df \<noteq> ''all''"
    and "filteredTransactions lib now tr ''all'' h r = (h2, Inr r2)"
  shows "filteredTransactions lib now tr df h r =
     array_filterE
       (\<lambda>tx. case effectiveDepartment tx of
               Inl e \<Rightarrow> Inl e
             | Inr dept \<Rightarrow> Inr (truthy dept \<and> dept = Some df))
       h2 r2"
  using assms
  by (auto simp: filteredTransactions_def Let_def split: prod.splits)

lemma filteredTransactions_all_result:
  assumes "r < length h" and "filteredTransactions lib now tr ''all'' h r = (h', res)"
  shows "\<exists>r'. res = Inr r' \<and> r' < length h' \<and>
     h' ! r' =
       sort_key (\<lambda>t. - date t)
         (case resolveTimeRange lib tr now of
            (Some s, Some e) \<Rightarrow> filter (\<lambda>t. s \<le> date t \<and> date t \<le> e) (h ! r)
          | _ \<Rightarrow> h ! r)"
proof (cases rule: resolveTimeRange_cases [of lib tr now])
  case 1
  with assms show ?thesis
    by (auto simp: filteredTransactions_all_unbounded)
next
  case (2 s e)
  with assms show ?thesis
    by (auto simp: filteredTransactions_all_bounded)
qed

lemma filteredTransactions_empty_filter:
  "filteredTransactions lib now tr [] h r = filteredTransactions lib now tr ''all'' h r"
  by (simp add: filteredTransactions_def)

text \<open>
  With a specific department filter, the pipeline returns when every row that passes the time
  filter has a department name of its own, and raises otherwise.
\<close>

lemma filteredTransactions_specific_result:
  assumes "r < length h" and "df \<noteq> []" and "df \<noteq> ''all''"
    and "filteredTransactions lib now tr ''all'' h r = (h2, Inr r2)"
  shows "filteredTransactions lib now tr df h r =
     (if \<forall>tx \<in> set (h2 ! r2). truthy (departmentName tx)
      then (h2 @ [filter (\<lambda>tx. departmentName tx = Some df) (h2 ! r2)], Inr (length h2))
      else (h2, Inl ReferenceError))"
proof (cases "\<forall>tx \<in> set (h2 ! r2). truthy (departmentName tx)")
  case True
  then have "filterE
      (\<lambda>tx. case effectiveDepartment tx of
              Inl e \<Rightarrow> Inl e
            | Inr dept \<Rightarrow> Inr (truthy dept \<and> dept = Some df)) (h2 ! r2) =
     Inr (filter (\<lambda>tx. departmentName tx = Some df) (h2 ! r2))"
    by (intro filterE_returns) (simp add: department_test_own_name)
  with True show ?thesis
    by (simp add: filteredTransactions_specific [OF assms(2,3,4)] array_filterE_def)
next
  case False
  then obtain tx where "tx \<in> set (h2 ! r2)" and "\<not> truthy (departmentName tx)" by blast
  then have "filterE
      (\<lambda>tx. case effectiveDepartment tx of
              Inl e \<Rightarrow> Inl e
            | Inr dept \<Rightarrow> Inr (truthy dept \<and> dept = Some df)) (h2 ! r2) = Inl ReferenceError"
    by (intro filterE_raises [of tx]) (simp_all add: department_test_raises)
  with False show ?thesis
    by (simp add: filteredTransactions_specific [OF assms(2,3,4)] array_filterE_def)
qed

text \<open>What a call leaves in the array it was given, whether it returns or raises.\<close>

lemma filteredTransactions_input:
  assumes "r < length h" and "filteredTransactions lib now tr df h r = (h', res)"
  shows "h' ! r =
     (case resolveTimeRange lib tr now of
        (Some s, Some e) \<Rightarrow> h ! r
      | _ \<Rightarrow> sort_key (\<lambda>t. - date t) (h ! r))"
proof -
  obtain h2 res2 where a: "filteredTransactions lib now tr ''all'' h r = (h2, res2)"
    by (cases "filteredTransactions lib now tr ''all'' h r")
  have h2: "h2 ! r =
     (case resolveTimeRange lib tr now of
        (Some s, Some e) \<Rightarrow> h ! r
      | _ \<Rightarrow> sort_key (\<lambda>t. - date t) (h ! r))" and len: "r < length h2"
    using a assms(1)
    by (cases rule: resolveTimeRange_cases [of lib tr now];
        auto simp: filteredTransactions_all_unbounded filteredTransactions_all_bounded nth_append)+
  obtain r2 where res2: "res2 = Inr r2"
    using filteredTransactions_all_result [OF assms(1) a] by blast
  show ?thesis
  proof (cases "df \<noteq> [] \<and> df \<noteq> ''all''")
    case True
    then have "h' = h2 \<or> (\<exists>ys. h' = h2 @ [ys])"
      using filteredTransactions_specific_result [OF assms(1) _ _ a [unfolded res2], of df] assms(2)
      by (auto split: if_splits)
    with h2 len show ?thesis by (auto simp: nth_append)
  next
    case False
    then have "h' = h2"
      using assms(2) a filteredTransactions_empty_filter [of lib now tr h r] by auto
    with h2 show ?thesis by simp
  qed
qed

lemma sorted_desc:
  "sorted (map (\<lambda>t. - date t) xs) = sorted_wrt (\<lambda>a b. date b \<le> date a) xs"
  by (induction xs) auto

subsection \<open>Department resolution\<close>

text \<open>
  Claim C1 says that a transaction without a department name of its own resolves to what the
  lookup gives for its category. To get at the lookup the code reads \<^verbatim>\<open>getCategoryDepartment\<close>,
  and the read raises. The transaction \<open>tx_i100\<close> has no department name of its own: its resolution
  raises \<^verbatim>\<open>ReferenceError\<close>, where the specification's resolver, given a lookup that maps the
  category to \<^verbatim>\<open>Finance\<close>, returns \<^verbatim>\<open>Finance\<close>. (A department name of its own that is not the
  empty string is returned as it is stored: lemma \<open>effectiveDepartment_own_name\<close>.)
\<close>

theorem effectiveDepartment_fallback_raises:
  "effectiveDepartment tx_i100 = Inl ReferenceError \<and>
   resolve_spec (\<lambda>c. if c = ''tithe'' then Some ''Finance'' else None) tx_i100 = Some ''Finance''"
  by (simp add: effectiveDepartment_def getCategoryDepartment_def truthy_def resolve_spec_def
        tx_i100_def mk_tx_def)

subsection \<open>The input array\<close>

lemma filteredTransactions_memo_raises:
  "filteredTransactions_memo lib now tr df h r = (h, Inl ReferenceError)"
  by (simp add: filteredTransactions_memo_def getCategoryDepartment_def)

lemma filteredTransactions_all_sorts_the_input:
  "filteredTransactions utc 1711886400000 ''all'' ''all''
     [[mk_tx ''a'' Income 100 ''PLN'' ''tithe'' None 1000,
       mk_tx ''b'' Expense 40 ''PLN'' ''travel'' None 2000]] 0 =
   ([[mk_tx ''b'' Expense 40 ''PLN'' ''travel'' None 2000,
      mk_tx ''a'' Income 100 ''PLN'' ''tithe'' None 1000]], Inr 0)"
  by (simp add: filteredTransactions_def resolveTimeRange_def array_sort_def mk_tx_def)

text \<open>
  Claim C2 says that the pipeline leaves the input collection unchanged and that its result is a
  new ordered sequence. On the first render the statement of lines 43 to 91 raises
  \<^verbatim>\<open>ReferenceError\<close> while the array of dependencies is built, before the function of lines 43 to
  90 is called: the store is left as it was and no sequence is returned. (The function itself,
  called with the time range \<^verbatim>\<open>all\<close> and the department filter \<^verbatim>\<open>all\<close>, sorts the array it was
  given and returns that same array: lemma \<open>filteredTransactions_all_sorts_the_input\<close>. With a
  bounded time range it leaves that array as it was: lemma \<open>filteredTransactions_input\<close>.)
\<close>

theorem filteredTransactions_memo_returns_nothing:
  "filteredTransactions_memo utc 1711886400000 ''all'' ''all''
     [[mk_tx ''a'' Income 100 ''PLN'' ''tithe'' None 1000,
       mk_tx ''b'' Expense 40 ''PLN'' ''travel'' None 2000]] 0 =
   ([[mk_tx ''a'' Income 100 ''PLN'' ''tithe'' None 1000,
      mk_tx ''b'' Expense 40 ''PLN'' ''travel'' None 2000]], Inl ReferenceError)"
  by (simp add: filteredTransactions_memo_def getCategoryDepartment_def)

subsection \<open>The editor\<close>

lemma startEdit_own_name:
  "truthy (departmentName tx) \<Longrightarrow>
   startEdit tx st =
     \<lparr>editor_after = st\<lparr>editingId := Some (id_tx tx), editingDept := or_empty (departmentName tx)\<rparr>,
      calls = [], raised = None\<rparr>"
  by (simp add: startEdit_def)

lemma startEdit_raises:
  "\<not> truthy (departmentName tx) \<Longrightarrow>
   startEdit tx st =
     \<lparr>editor_after = st\<lparr>editingId := Some (id_tx tx)\<rparr>, calls = [],
      raised = Some ReferenceError\<rparr>"
  by (simp add: startEdit_def getCategoryDepartment_def)

lemma startEdit_flag: "applyToCategory (editor_after (startEdit tx st)) = applyToCategory st"
  by (cases "truthy (departmentName tx)") (simp_all add: startEdit_own_name startEdit_raises)

text \<open>
  Claim C3 says that the click on a department cell starts an edit whose draft is the effective
  department of the row. For the row \<open>tx_i100\<close>, which has no department name of its own, the
  handler of line 237 requests the update of \<^verbatim>\<open>editingId\<close> and then raises \<^verbatim>\<open>ReferenceError\<close>
  while it evaluates the argument of \<^verbatim>\<open>setEditingDept\<close>: the draft is not written, where the claim
  has it set to the department of the row's category, \<^verbatim>\<open>Finance\<close> for a lookup that maps the
  category to it. (For a row with a department name of its own the draft is that name: lemma
  \<open>startEdit_own_name\<close>. No path of the handler writes \<^verbatim>\<open>applyToCategory\<close>: lemma
  \<open>startEdit_flag\<close>.)
\<close>

theorem startEdit_without_own_name_raises:
  "startEdit tx_i100 initialEditor =
     \<lparr>editor_after = \<lparr>editingId = Some ''i100'', editingDept = [], applyToCategory = False\<rparr>,
      calls = [], raised = Some ReferenceError\<rparr> \<and>
   or_empty (resolve_spec (\<lambda>c. if c = ''tithe'' then Some ''Finance'' else None) tx_i100) =
     ''Finance''"
  by (simp add: startEdit_def getCategoryDepartment_def truthy_def initialEditor_def
        resolve_spec_def or_empty_def tx_i100_def mk_tx_def)

lemma commit_raises:
  "commit getCategoryName tx st = \<lparr>editor_after = st, calls = [], raised = Some ReferenceError\<rparr>"
  by (simp add: commit_def updateTransaction_def)

lemma cancel_outcome:
  "editingId (editor_after (cancel st)) = None"
  "editingDept (editor_after (cancel st)) = []"
  "applyToCategory (editor_after (cancel st)) = False"
  "calls (cancel st) = []"
  "raised (cancel st) = None"
  by (simp_all add: cancel_def)

text \<open>
  Claim C4 says that the confirm button calls the transaction-update collaborator with the trimmed
  draft, and the category-update collaborator when the flag is true. The handler of lines 223 to
  232 starts by reading \<^verbatim>\<open>updateTransaction\<close>, which raises \<^verbatim>\<open>ReferenceError\<close>: no collaborator
  is called and the edit is not ended, here for the draft \<^verbatim>\<open>Sales\<close> and by lemma
  \<open>commit_raises\<close> for every row and state. (The cancel button calls nothing and ends the edit:
  lemma \<open>cancel_outcome\<close>.)
\<close>

theorem commit_calls_nothing:
  "commit (\<lambda>c. if c = ''travel'' then ''Travel'' else ''Unknown'') tx_e40
     \<lparr>editingId = Some ''e40'', editingDept = ''Sales'', applyToCategory = False\<rparr> =
   \<lparr>editor_after = \<lparr>editingId = Some ''e40'', editingDept = ''Sales'', applyToCategory = False\<rparr>,
    calls = [], raised = Some ReferenceError\<rparr>"
  by (simp add: commit_def updateTransaction_def)

subsection \<open>Time ranges\<close>

text \<open>The library instance at noon of 31 March 2024.\<close>

lemma utc_now:
  "startOfMonth utc 1711886400000 = 1709251200000"
  "endOfMonth utc 1711886400000 = 1711929599999"
  "startOfMonth utc (subMonths utc 1711886400000 1) = 1706745600000"
  "endOfMonth utc (subMonths utc 1711886400000 1) = 1709251199999"
  by code_simp+

text \<open>
  Claim C5. Each of the five tokens gives the interval the claim names, in terms of the library
  functions applied to \<^verbatim>\<open>now\<close>; the token \<^verbatim>\<open>all\<close> and every other string give no bounds, and then
  the pipeline (with the department filter \<^verbatim>\<open>all\<close>) returns every transaction of its input.
\<close>

theorem resolveTimeRange_tokens:
  "resolveTimeRange lib ''thisMonth'' now =
     (Some (startOfMonth lib now), Some (endOfMonth lib now)) \<and>
   resolveTimeRange lib ''lastMonth'' now =
     (Some (startOfMonth lib (subMonths lib now 1)), Some (endOfMonth lib (subMonths lib now 1))) \<and>
   resolveTimeRange lib ''last3Months'' now =
     (Some (startOfMonth lib (subMonths lib now 2)), Some (endOfMonth lib now)) \<and>
   resolveTimeRange lib ''last6Months'' now =
     (Some (startOfMonth lib (subMonths lib now 5)), Some (endOfMonth lib now)) \<and>
   resolveTimeRange lib ''thisYear'' now =
     (Some (startOfYear lib now), Some (endOfYear lib now)) \<and>
   resolveTimeRange lib ''all'' now = (None, None) \<and>
   (tr \<notin> {''thisMonth'', ''lastMonth'', ''last3Months'', ''last6Months'', ''thisYear''} \<longrightarrow>
      resolveTimeRange lib tr now = (None, None) \<and>
      (r < length h \<longrightarrow>
         (case filteredTransactions lib now tr ''all'' h r of
            (h', res) \<Rightarrow>
              (case res of
                 Inl err \<Rightarrow> False
               | Inr r' \<Rightarrow> mset (h' ! r') = mset (h ! r)))))"
proof -
  have "case res of Inl err \<Rightarrow> False | Inr r' \<Rightarrow> mset (h' ! r') = mset (h ! r)"
    if "resolveTimeRange lib tr now = (None, None)" and "r < length h"
      and "filteredTransactions lib now tr ''all'' h r = (h', res)" for h' res
    using filteredTransactions_all_result [OF that(2) that(3)] that(1) by auto
  then show ?thesis
    by (auto simp: resolveTimeRange_def)
qed

theorem resolveTimeRange_tokens_witness:
  "resolveTimeRange utc ''thisMonth'' 1711886400000 = (Some 1709251200000, Some 1711929599999) \<and>
   resolveTimeRange utc ''lastMonth'' 1711886400000 = (Some 1706745600000, Some 1709251199999) \<and>
   resolveTimeRange utc ''someday'' 1711886400000 = (None, None) \<and>
   (case filteredTransactions utc 1711886400000 ''someday'' ''all''
           [[mk_tx ''a'' Income 100 ''PLN'' ''tithe'' None 1000,
             mk_tx ''b'' Expense 40 ''PLN'' ''travel'' None 2000]] 0 of
      (h', res) \<Rightarrow>
        (case res of
           Inl err \<Rightarrow> False
         | Inr r' \<Rightarrow>
             mset (h' ! r') =
               {#mk_tx ''a'' Income 100 ''PLN'' ''tithe'' None 1000,
                 mk_tx ''b'' Expense 40 ''PLN'' ''travel'' None 2000#}))"
  using resolveTimeRange_tokens [of utc 1711886400000 "''someday''" 0
      "[[mk_tx ''a'' Income 100 ''PLN'' ''tithe'' None 1000,
         mk_tx ''b'' Expense 40 ''PLN'' ''travel'' None 2000]]"]
  by (auto simp: utc_now split: prod.splits sum.splits)

subsection \<open>Membership, order and idempotence\<close>

text \<open>
  Claim C6. With the department filter \<^verbatim>\<open>all\<close> the pipeline returns, and: for a bounded range the
  result holds exactly the transactions of the input whose date \<open>d\<close> satisfies
  \<open>start \<le> d \<le> end\<close>, each as often as the input has it; the result is in descending order of
  date; for the range \<^verbatim>\<open>all\<close> the result has exactly the elements of the input; and under
  \<^verbatim>\<open>thisMonth\<close> a transaction dated \<^verbatim>\<open>startOfMonth(now)\<close> is in the result (the start of a month
  not being after its end).
\<close>

theorem filteredTransactions_time_filter:
  assumes "r < length h"
    and "filteredTransactions lib now tr ''all'' h r = (h', res)"
  shows "case res of
           Inl err \<Rightarrow> False
         | Inr r' \<Rightarrow>
             (resolveTimeRange lib tr now = (Some s, Some e) \<longrightarrow>
                mset (h' ! r') =
                  filter_mset (\<lambda>t. s \<le> date t \<and> date t \<le> e) (mset (h ! r))) \<and>
             sorted_wrt (\<lambda>a b. date b \<le> date a) (h' ! r') \<and>
             (tr = ''all'' \<longrightarrow> mset (h' ! r') = mset (h ! r)) \<and>
             (tr = ''thisMonth'' \<and> t \<in> set (h ! r) \<and> date t = startOfMonth lib now \<and>
              startOfMonth lib now \<le> endOfMonth lib now \<longrightarrow> t \<in> set (h' ! r'))"
proof -
  let ?K = "\<lambda>t::'a transaction. - date t"
  let ?T = "case resolveTimeRange lib tr now of
              (Some s, Some e) \<Rightarrow> filter (\<lambda>t. s \<le> date t \<and> date t \<le> e) (h ! r)
            | _ \<Rightarrow> h ! r"
  obtain r' where ret: "res = Inr r'" and res: "h' ! r' = sort_key ?K ?T"
    using filteredTransactions_all_result [OF assms] by blast
  have bounded: "mset (h' ! r') = filter_mset (\<lambda>t. s \<le> date t \<and> date t \<le> e) (mset (h ! r))"
    if "resolveTimeRange lib tr now = (Some s, Some e)"
    using res that by simp
  have "sorted (map ?K (h' ! r'))"
    unfolding res by (rule sorted_sort_key)
  then have desc: "sorted_wrt (\<lambda>a b. date b \<le> date a) (h' ! r')"
    by (simp add: sorted_desc)
  have all: "mset (h' ! r') = mset (h ! r)" if "tr = ''all''"
    using res that by (simp add: resolveTimeRange_def)
  have boundary: "t \<in> set (h' ! r')"
    if "tr = ''thisMonth''" "t \<in> set (h ! r)" "date t = startOfMonth lib now"
      "startOfMonth lib now \<le> endOfMonth lib now"
    using res that by (simp add: resolveTimeRange_def)
  from bounded desc all boundary show ?thesis
    unfolding ret by simp
qed

theorem filteredTransactions_time_filter_witness:
  "(case filteredTransactions utc 1711886400000 ''thisMonth'' ''all''
          [[tx_usd5, tx_i100, tx_e40]] 0 of
      (h', res) \<Rightarrow>
        (case res of
           Inl err \<Rightarrow> False
         | Inr r' \<Rightarrow>
             mset (h' ! r') = {#tx_i100, tx_e40#} \<and>
             sorted_wrt (\<lambda>a b. date b \<le> date a) (h' ! r') \<and>
             tx_i100 \<in> set (h' ! r'))) \<and>
   (case filteredTransactions utc 1711886400000 ''all'' ''all''
          [[tx_usd5, tx_i100, tx_e40]] 0 of
      (h', res) \<Rightarrow>
        (case res of
           Inl err \<Rightarrow> False
         | Inr r' \<Rightarrow> mset (h' ! r') = {#tx_usd5, tx_i100, tx_e40#}))"
proof -
  let ?h = "[[tx_usd5, tx_i100, tx_e40]]"
  have len: "0 < length ?h" by simp
  have range: "resolveTimeRange utc ''thisMonth'' 1711886400000 =
      (Some 1709251200000, Some 1711929599999)"
    by (simp add: resolveTimeRange_def utc_now)
  have dates: "date tx_usd5 = 1711929600000" "date tx_i100 = 1709251200000"
      "date tx_e40 = 1711929599999"
    by (simp_all add: tx_usd5_def tx_i100_def tx_e40_def mk_tx_def)
  obtain h1 r1 where m: "filteredTransactions utc 1711886400000 ''thisMonth'' ''all'' ?h 0 =
      (h1, r1)"
    by (cases "filteredTransactions utc 1711886400000 ''thisMonth'' ''all'' ?h 0")
  obtain h2 r2 where a: "filteredTransactions utc 1711886400000 ''all'' ''all'' ?h 0 =
      (h2, r2)"
    by (cases "filteredTransactions utc 1711886400000 ''all'' ''all'' ?h 0")
  show ?thesis
    using filteredTransactions_time_filter [OF len m, of 1709251200000 1711929599999 tx_i100]
      filteredTransactions_time_filter [OF len a, of 0 0 tx_i100]
    by (simp add: m a range dates utc_now split: sum.splits)
qed

text \<open>A second run on a returned result returns the same sequence again.\<close>

lemma filteredTransactions_again:
  assumes "r < length h"
    and "filteredTransactions lib now tr df h r = (h', Inr r')"
  shows "\<exists>h'' r''. filteredTransactions lib now tr df h' r' = (h'', Inr r'') \<and>
           h'' ! r'' = h' ! r'"
proof -
  let ?K = "\<lambda>t::'a transaction. - date t"
  let ?T = "\<lambda>xs::'a transaction list. case resolveTimeRange lib tr now of
              (Some s, Some e) \<Rightarrow> filter (\<lambda>t. s \<le> date t \<and> date t \<le> e) xs
            | _ \<Rightarrow> xs"
  have again: "sort_key ?K (?T ys) = ys"
    if sub: "set ys \<subseteq> set (?T xs)" and srt: "sorted (map ?K ys)"
    for xs ys :: "'a transaction list"
  proof -
    have "?T ys = ys"
    proof (cases rule: resolveTimeRange_cases [of lib tr now])
      case 1
      then show ?thesis by simp
    next
      case (2 s e)
      with sub have "\<forall>t \<in> set ys. s \<le> date t \<and> date t \<le> e" by auto
      with 2 show ?thesis by simp
    qed
    with srt show ?thesis by (simp add: sort_key_id_if_sorted)
  qed
  obtain h2 res2 where a: "filteredTransactions lib now tr ''all'' h r = (h2, res2)"
    by (cases "filteredTransactions lib now tr ''all'' h r")
  from filteredTransactions_all_result [OF assms(1) a]
  obtain r2 where res2: "res2 = Inr r2" and r2: "r2 < length h2"
    and zs: "h2 ! r2 = sort_key ?K (?T (h ! r))" by auto
  show ?thesis
  proof (cases "df \<noteq> [] \<and> df \<noteq> ''all''")
    case False
    then have same: "filteredTransactions lib now tr df k q =
        filteredTransactions lib now tr ''all'' k q" for k :: "'a store" and q
      by (auto simp: filteredTransactions_empty_filter)
    with assms(2) a res2 have eq: "h' = h2" "r' = r2" by auto
    obtain h3 res3 where b: "filteredTransactions lib now tr ''all'' h2 r2 = (h3, res3)"
      by (cases "filteredTransactions lib now tr ''all'' h2 r2")
    from filteredTransactions_all_result [OF r2 b]
    obtain r3 where res3: "res3 = Inr r3" and ws: "h3 ! r3 = sort_key ?K (?T (h2 ! r2))" by auto
    have "sort_key ?K (?T (h2 ! r2)) = h2 ! r2"
      by (rule again [of _ "h ! r"]) (simp_all add: zs)
    with ws b res3 show ?thesis
      unfolding eq same by simp
  next
    case True
    note spec = filteredTransactions_specific_result [OF _ conjunct1 [OF True] conjunct2 [OF True]]
    let ?ys = "filter (\<lambda>tx. departmentName tx = Some df) (h2 ! r2)"
    from spec [OF assms(1) a [unfolded res2]] assms(2)
    have own: "\<forall>tx \<in> set (h2 ! r2). truthy (departmentName tx)"
      and eq: "h' = h2 @ [?ys]" "r' = length h2"
      by (auto split: if_splits)
    have r': "r' < length h'" by (simp add: eq)
    have ys: "h' ! r' = ?ys" by (simp add: eq)
    obtain h3 res3 where b: "filteredTransactions lib now tr ''all'' h' r' = (h3, res3)"
      by (cases "filteredTransactions lib now tr ''all'' h' r'")
    from filteredTransactions_all_result [OF r' b]
    obtain r3 where res3: "res3 = Inr r3" and ws: "h3 ! r3 = sort_key ?K (?T (h' ! r'))" by auto
    have "sorted (map ?K (h2 ! r2))"
      unfolding zs by (rule sorted_sort_key)
    then have "sorted (map ?K ?ys)"
      by (simp add: sorted_filter)
    moreover have "set ?ys \<subseteq> set (?T (h ! r))"
      by (auto simp: zs)
    ultimately have fixed: "sort_key ?K (?T ?ys) = ?ys"
      by (rule again [rotated])
    have h3: "h3 ! r3 = ?ys"
      unfolding ws ys by (rule fixed)
    with own have own3: "\<forall>tx \<in> set (h3 ! r3). truthy (departmentName tx)" by auto
    have "filter (\<lambda>tx. departmentName tx = Some df) (h3 ! r3) = h3 ! r3"
      unfolding h3 by simp
    with spec [OF r' b [unfolded res3]] own3 ys h3 show ?thesis
      by simp
  qed
qed

text \<open>
  Claim C7 says that a second run of the pipeline on the result of the first gives that result
  again, for every collection and every department filter. With the department filter
  \<^verbatim>\<open>Youth\<close> and a collection that holds the row \<open>tx_i100\<close>, which has no department name of its own,
  the function of lines 43 to 90 raises \<^verbatim>\<open>ReferenceError\<close> at line 85, after it has sorted the
  array it was given, and the statement of lines 43 to 91 raises before the function is called:
  there is no result to run the pipeline on again. (Where the first run returns, the second
  returns the same sequence: lemma \<open>filteredTransactions_again\<close>.)
\<close>

theorem filteredTransactions_first_run_raises:
  "filteredTransactions utc 1711886400000 ''all'' ''Youth'' [[tx_i100, tx_e40]] 0 =
     ([[tx_e40, tx_i100]], Inl ReferenceError) \<and>
   filteredTransactions_memo utc 1711886400000 ''all'' ''Youth'' [[tx_i100, tx_e40]] 0 =
     ([[tx_i100, tx_e40]], Inl ReferenceError)"
  by (simp add: filteredTransactions_def filteredTransactions_memo_def resolveTimeRange_def
        array_sort_def array_filterE_def effectiveDepartment_def getCategoryDepartment_def
        truthy_def tx_i100_def tx_e40_def mk_tx_def)

subsection \<open>Totals\<close>

lemma update_new_key:
  "k \<notin> set cs \<Longrightarrow>
   AList.update k v (map (\<lambda>c. (c, F c)) cs) = map (\<lambda>c. (c, F c)) cs @ [(k, v)]"
  by (induction cs) auto

lemma map_entry_tabulated:
  "distinct cs \<Longrightarrow>
   AList.map_entry k f (map (\<lambda>c. (c, F c)) cs) =
   map (\<lambda>c. (c, if c = k then f (F c) else F c)) cs"
  by (induction cs) auto

lemma map_of_tabulated:
  "map_of (map (\<lambda>c. (c, F c)) cs) k = (if k \<in> set cs then Some (F k) else None)"
  by (induction cs) auto

lemma totals_snoc: "totals (xs @ [t]) = totals_step (totals xs) t"
  by (simp add: totals_def)

lemma totals_closed_form:
  "totals xs =
   map (\<lambda>c. (c, \<lparr>income = foldl (+) 0 (map amount
                     (filter (\<lambda>t. currency t = c \<and> type_tx t = Income) xs)),
                 expense = foldl (+) 0 (map amount
                     (filter (\<lambda>t. currency t = c \<and> type_tx t = Expense) xs))\<rparr>))
     (rev (remdups (rev (map currency xs))))"
proof (induction xs rule: rev_induct)
  case Nil
  show ?case by (simp add: totals_def)
next
  case (snoc t xs)
  let ?cs = "rev (remdups (rev (map currency xs)))"
  let ?F = "\<lambda>ys c. \<lparr>income = foldl (+) 0 (map amount
                     (filter (\<lambda>t. currency t = c \<and> type_tx t = Income) ys)),
                 expense = foldl (+) 0 (map amount
                     (filter (\<lambda>t. currency t = c \<and> type_tx t = Expense) ys))\<rparr>"
  have d: "distinct ?cs" by simp
  have s: "set ?cs = currency ` set xs" by simp
  have IH: "totals xs = map (\<lambda>c. (c, ?F xs c)) ?cs" using snoc.IH .
  have nI: "type_tx t \<noteq> Income \<longleftrightarrow> type_tx t = Expense" by (cases "type_tx t") auto
  show ?case
  proof (cases "currency t \<in> currency ` set xs")
    case True
    then have "map_of (totals xs) (currency t) \<noteq> None"
      unfolding IH map_of_tabulated using s by simp
    then have "totals (xs @ [t]) =
        (if type_tx t = Income
         then AList.map_entry (currency t) (\<lambda>b. b\<lparr>income := income b + amount t\<rparr>) (totals xs)
         else AList.map_entry (currency t) (\<lambda>b. b\<lparr>expense := expense b + amount t\<rparr>) (totals xs))"
      by (auto simp: totals_snoc totals_step_def)
    also have "\<dots> = map (\<lambda>c. (c, ?F (xs @ [t]) c)) ?cs"
      unfolding IH using d by (cases "type_tx t") (auto simp: map_entry_tabulated)
    also have "?cs = rev (remdups (rev (map currency (xs @ [t]))))"
      using True by simp
    finally show ?thesis .
  next
    case False
    let ?g = "if type_tx t = Income
              then (\<lambda>b::'a bucket. b\<lparr>income := income b + amount t\<rparr>)
              else (\<lambda>b. b\<lparr>expense := expense b + amount t\<rparr>)"
    from False have notin: "currency t \<notin> set ?cs" using s by simp
    with d have d': "distinct (?cs @ [currency t])" by simp
    have empty: "filter (\<lambda>ta. currency ta = currency t \<and> type_tx ta = ty) xs = []" for ty
      using False by (force simp: filter_empty_conv image_iff)
    have "map_of (totals xs) (currency t) = None"
      unfolding IH map_of_tabulated using notin by simp
    then have "totals (xs @ [t]) =
        AList.map_entry (currency t) ?g
          (AList.update (currency t) \<lparr>income = 0, expense = 0\<rparr> (totals xs))"
      by (simp add: totals_snoc totals_step_def)
    also have "AList.update (currency t) \<lparr>income = 0, expense = 0\<rparr> (totals xs) =
        map (\<lambda>c. (c, ?F xs c)) (?cs @ [currency t])"
      unfolding IH using notin by (simp add: update_new_key empty)
    also have "AList.map_entry (currency t) ?g (map (\<lambda>c. (c, ?F xs c)) (?cs @ [currency t])) =
        map (\<lambda>c. (c, if c = currency t then ?g (?F xs c) else ?F xs c)) (?cs @ [currency t])"
      by (rule map_entry_tabulated [OF d'])
    also have "\<dots> = map (\<lambda>c. (c, ?F (xs @ [t]) c)) (?cs @ [currency t])"
      by (cases "type_tx t") auto
    also have "?cs @ [currency t] = rev (remdups (rev (map currency (xs @ [t]))))"
      using False by simp
    finally show ?thesis .
  qed
qed

lemma totals_keys: "map fst (totals xs) = rev (remdups (rev (map currency xs)))"
  by (subst totals_closed_form) (simp add: comp_def)

lemma totals_lookup:
  "map_of (totals xs) c =
     (if c \<in> currency ` set xs
      then Some \<lparr>income = foldl (+) 0 (map amount
                     (filter (\<lambda>t. currency t = c \<and> type_tx t = Income) xs)),
                 expense = foldl (+) 0 (map amount
                     (filter (\<lambda>t. currency t = c \<and> type_tx t = Expense) xs))\<rparr>
      else None)"
  by (subst totals_closed_form) (simp add: map_of_tabulated)

lemma totals_without_new_currency:
  assumes "currency t \<notin> currency ` set (xs @ ys)"
  shows "filter (\<lambda>kb. fst kb \<noteq> currency t) (totals (xs @ t # ys)) = totals (xs @ ys)"
proof -
  let ?k = "currency t"
  have others: "filter (\<lambda>c. c \<noteq> ?k) (map currency zs) = map currency zs"
    if "?k \<notin> currency ` set zs" for zs :: "'a transaction list"
    using that by (force simp: filter_id_conv image_iff)
  have "filter (\<lambda>c. c \<noteq> ?k) (map currency (xs @ t # ys)) = map currency (xs @ ys)"
    using assms others [of xs] others [of ys] by (simp add: image_Un)
  then have keys: "filter (\<lambda>c. c \<noteq> ?k) (rev (remdups (rev (map currency (xs @ t # ys))))) =
      rev (remdups (rev (map currency (xs @ ys))))"
    by (simp only: rev_filter [symmetric] remdups_filter [symmetric])
  have same: "filter (\<lambda>ta. currency ta = c \<and> type_tx ta = ty) (xs @ t # ys) =
      filter (\<lambda>ta. currency ta = c \<and> type_tx ta = ty) (xs @ ys)" if "c \<noteq> ?k" for c ty
    using that by auto
  have "filter (\<lambda>kb. fst kb \<noteq> ?k) (totals (xs @ t # ys)) =
      map (\<lambda>c. (c, \<lparr>income = foldl (+) 0 (map amount
                        (filter (\<lambda>t. currency t = c \<and> type_tx t = Income) (xs @ t # ys))),
                    expense = foldl (+) 0 (map amount
                        (filter (\<lambda>t. currency t = c \<and> type_tx t = Expense) (xs @ t # ys)))\<rparr>))
        (filter (\<lambda>c. c \<noteq> ?k) (rev (remdups (rev (map currency (xs @ t # ys))))))"
    by (subst totals_closed_form) (simp add: filter_map comp_def)
  also have "\<dots> =
      map (\<lambda>c. (c, \<lparr>income = foldl (+) 0 (map amount
                        (filter (\<lambda>t. currency t = c \<and> type_tx t = Income) (xs @ ys))),
                    expense = foldl (+) 0 (map amount
                        (filter (\<lambda>t. currency t = c \<and> type_tx t = Expense) (xs @ ys)))\<rparr>))
        (filter (\<lambda>c. c \<noteq> ?k) (rev (remdups (rev (map currency (xs @ t # ys))))))"
  proof (rule map_cong [OF refl])
    fix c
    assume "c \<in> set (filter (\<lambda>c. c \<noteq> ?k) (rev (remdups (rev (map currency (xs @ t # ys))))))"
    then have neq: "c \<noteq> ?k" by simp
    show "(c, \<lparr>income = foldl (+) 0 (map amount
                        (filter (\<lambda>t. currency t = c \<and> type_tx t = Income) (xs @ t # ys))),
                    expense = foldl (+) 0 (map amount
                        (filter (\<lambda>t. currency t = c \<and> type_tx t = Expense) (xs @ t # ys)))\<rparr>) =
               (c, \<lparr>income = foldl (+) 0 (map amount
                        (filter (\<lambda>t. currency t = c \<and> type_tx t = Income) (xs @ ys))),
                    expense = foldl (+) 0 (map amount
                        (filter (\<lambda>t. currency t = c \<and> type_tx t = Expense) (xs @ ys)))\<rparr>)"
      unfolding same [OF neq] ..
  qed
  also have "\<dots> = totals (xs @ ys)"
    unfolding keys by (rule totals_closed_form [symmetric])
  finally show ?thesis .
qed

lemma totals_new_currency_bucket:
  assumes "currency t \<notin> currency ` set (xs @ ys)"
  shows "map_of (totals (xs @ t # ys)) (currency t) =
     Some \<lparr>income = (if type_tx t = Income then 0 + amount t else 0),
           expense = (if type_tx t = Expense then 0 + amount t else 0)\<rparr>"
proof -
  have "filter (\<lambda>ta. currency ta = currency t \<and> type_tx ta = ty) zs = []"
    if "currency t \<notin> currency ` set zs" for zs :: "'a transaction list" and ty
    using that by (force simp: filter_empty_conv image_iff)
  with assms show ?thesis
    by (simp add: totals_lookup image_Un)
qed

text \<open>
  Claim C8. The bucket of a currency that occurs holds, as income, the amounts of the income
  transactions of that currency added in list order starting from 0, and as expense those of its
  expense transactions; a currency that does not occur has no bucket; the buckets are in order of
  first occurrence; and putting a transaction of a new currency anywhere into the list adds its
  bucket and leaves every other bucket, and their order, as they were.
\<close>

theorem totals_correct:
  "map_of (totals txs) c =
     (if c \<in> currency ` set txs
      then Some \<lparr>income = foldl (+) 0 (map amount
                     (filter (\<lambda>t. currency t = c \<and> type_tx t = Income) txs)),
                 expense = foldl (+) 0 (map amount
                     (filter (\<lambda>t. currency t = c \<and> type_tx t = Expense) txs))\<rparr>
      else None) \<and>
   map fst (totals txs) = rev (remdups (rev (map currency txs))) \<and>
   (currency t \<notin> currency ` set (xs @ ys) \<longrightarrow>
      filter (\<lambda>kb. fst kb \<noteq> currency t) (totals (xs @ t # ys)) = totals (xs @ ys) \<and>
      map_of (totals (xs @ t # ys)) (currency t) =
        Some \<lparr>income = (if type_tx t = Income then 0 + amount t else 0),
              expense = (if type_tx t = Expense then 0 + amount t else 0)\<rparr>)"
  using totals_lookup [of txs c] totals_keys [of txs]
    totals_without_new_currency [of t xs ys] totals_new_currency_bucket [of t xs ys]
  by blast

theorem totals_correct_witness:
  "map_of (totals [tx_i100, tx_e40, tx_usd5]) ''PLN'' = Some \<lparr>income = 100, expense = 40\<rparr> \<and>
   map fst (totals [tx_i100, tx_e40, tx_usd5]) = [''PLN'', ''USD''] \<and>
   filter (\<lambda>kb. fst kb \<noteq> ''USD'') (totals [tx_i100, tx_e40, tx_usd5]) = totals [tx_i100, tx_e40] \<and>
   map_of (totals [tx_i100, tx_e40, tx_usd5]) ''USD'' = Some \<lparr>income = 5, expense = 0\<rparr>"
  using totals_correct [of "[tx_i100, tx_e40, tx_usd5]" "''PLN''" tx_usd5 "[tx_i100, tx_e40]" "[]"]
  by (simp add: tx_i100_def tx_e40_def tx_usd5_def mk_tx_def)

subsection \<open>The department filter\<close>

text \<open>
  Claim C9 says that a transaction whose effective department is absent is not retained under a
  specific department filter, and that no error is raised for it on any path. With the time
  range \<^verbatim>\<open>thisMonth\<close> and the department filter \<^verbatim>\<open>Youth\<close>, the row \<open>tx_i100\<close> passes the time
  filter and has no department name of its own: the test of lines 84 to 87 raises
  \<^verbatim>\<open>ReferenceError\<close> on it and the pipeline returns no sequence. (By lemma
  \<open>filteredTransactions_specific_result\<close> the pipeline raises under a specific filter exactly when
  some row that passes the time filter has no department name of its own.)
\<close>

theorem filteredTransactions_raises_on_absent_department:
  "filteredTransactions utc 1711886400000 ''thisMonth'' ''Youth''
     [[tx_usd5, tx_i100, tx_e40]] 0 =
   ([[tx_usd5, tx_i100, tx_e40], [tx_e40, tx_i100]], Inl ReferenceError)"
  by (simp add: filteredTransactions_def resolveTimeRange_def utc_now array_filter_def
        array_sort_def array_filterE_def isWithinInterval_def effectiveDepartment_def
        getCategoryDepartment_def truthy_def tx_usd5_def tx_i100_def tx_e40_def mk_tx_def)

subsection \<open>The department selector\<close>

lemma collectDepartments_raises:
  "tx \<in> set txs \<Longrightarrow> \<not> truthy (departmentName tx) \<Longrightarrow>
   collectDepartments s txs = Inl ReferenceError"
proof (induction txs arbitrary: s)
  case Nil
  then show ?case by simp
next
  case (Cons t ts)
  show ?case
  proof (cases "truthy (departmentName t)")
    case True
    with Cons have "tx \<in> set ts" by auto
    with Cons True show ?thesis by (simp add: effectiveDepartment_own_name)
  next
    case False
    then show ?thesis by (simp add: effectiveDepartment_raises)
  qed
qed

lemma availableDepartments_raises:
  "tx \<in> set txs \<Longrightarrow> \<not> truthy (departmentName tx) \<Longrightarrow>
   availableDepartments txs = Inl ReferenceError"
  by (simp add: availableDepartments_def collectDepartments_raises)

text \<open>
  Claim C10 says that the trimmed label of a department that carries leading or trailing white
  space is offered by the selector. The row \<open>tx_padded\<close> has the department name \<^verbatim>\<open> Youth\<close>,
  whose trimmed label is \<^verbatim>\<open>Youth\<close>. In a collection that also holds the row \<open>tx_i100\<close>, which has no
  department name of its own, the loop of lines 124 to 127 raises \<^verbatim>\<open>ReferenceError\<close>, and the
  statement of lines 122 to 129 raises while the array of dependencies is built: no option is
  computed.
\<close>

theorem availableDepartments_offers_nothing:
  "trim (or_empty (departmentName tx_padded)) = ''Youth'' \<and>
   availableDepartments [tx_padded, tx_i100] = Inl ReferenceError \<and>
   availableDepartments_memo [tx_padded, tx_i100] = Inl ReferenceError"
  by (simp add: availableDepartments_def availableDepartments_memo_def effectiveDepartment_def
        getCategoryDepartment_def
        truthy_def or_empty_def trim_def isWhiteSpace_def set_add_def tx_padded_def tx_i100_def
        mk_tx_def)

end
